theory Spec2Isabelle
  imports Complex_Main "HOL-Library.Word"
begin

section \<open>The fixed point class of \<^verbatim>\<open>src/utilities/fixed_point.hpp\<close>\<close>

text \<open>
  \<^verbatim>\<open>template<typename B, unsigned char I, unsigned char F = ...> class FixedPoint\<close>
  holds one private field, \<^verbatim>\<open>B value_\<close> (the field \<open>value'\<close> below: a name
  cannot end with an underscore here). The storage kind \<open>B\<close> is a fixed-width
  integer type: its bits are a word of that width, read by \<open>uint\<close> when \<open>B\<close> is
  unsigned and by \<open>sint\<close> when it is signed. The template parameters \<open>I\<close> and \<open>F\<close>
  are compile-time numbers, passed to the functions that use them.
\<close>

datatype signedness = Signed | Unsigned

record (overloaded) ('b :: len) FixedPoint =
  value' :: "'b word"

subsection \<open>Template parameters\<close>

text \<open>
  \<^verbatim>\<open>std::numeric_limits<B>::digits\<close> belongs to the C++ standard library: the number
  of binary digits of \<open>B\<close> without the sign bit.
\<close>

definition digits :: "signedness \<Rightarrow> ('b :: len) itself \<Rightarrow> nat" where
  "digits sg b = (case sg of Unsigned \<Rightarrow> LENGTH('b) | Signed \<Rightarrow> LENGTH('b) - 1)"

text \<open>
  \<^verbatim>\<open>unsigned char F = std::numeric_limits<B>::digits - I\<close>: the difference is
  computed in \<^verbatim>\<open>int\<close> and must fit the \<^verbatim>\<open>unsigned char\<close> parameter; a negative
  difference is a narrowing conversion in a template argument, which the
  compiler rejects (\<open>None\<close>).
\<close>

definition default_F :: "signedness \<Rightarrow> ('b :: len) itself \<Rightarrow> nat \<Rightarrow> nat option" where
  "default_F sg b I =
     (if I \<le> digits sg b then Some (digits sg b - I) else None)"

text \<open>
  \<^verbatim>\<open>static constexpr unsigned long long two_power_f = (1ULL << F)\<close>, a shift
  of a 64-bit unsigned value. C++ defines it for \<open>F < 64\<close> only.
\<close>

definition two_power_f :: "nat \<Rightarrow> 64 word" where
  "two_power_f F = push_bit F 1"

subsection \<open>Converting constructors\<close>

text \<open>
  Conversion of a floating-point value to an integer type discards the
  fractional part (truncation towards zero).
\<close>

definition trunc :: "real \<Rightarrow> int" where
  "trunc x = (if 0 \<le> x then \<lfloor>x\<rfloor> else \<lceil>x\<rceil>)"

definition to_storage :: "real \<Rightarrow> ('b :: len) word" where
  "to_storage x = word_of_int (trunc x)"

text \<open>
  \<^verbatim>\<open>FixedPoint(float value)\<close> and \<^verbatim>\<open>FixedPoint(double value)\<close> have the same
  initialiser,
  \<^verbatim>\<open>value_(value * two_power_f + value >= 0 ? 0.5 : -0.5)\<close>.
  In C++ \<^verbatim>\<open>*\<close> binds tighter than \<^verbatim>\<open>+\<close>, \<^verbatim>\<open>+\<close> tighter than \<^verbatim>\<open>>=\<close>, and \<^verbatim>\<open>>=\<close>
  tighter than \<^verbatim>\<open>?:\<close>, so the initialiser is the whole conditional expression
  with condition \<^verbatim>\<open>(value * two_power_f + value) >= 0\<close>.

  A finite floating-point argument is a real number. The parameter \<open>fl\<close> is the
  rounding of the argument's format applied to the result of each arithmetic
  operation (binary32 for the \<^verbatim>\<open>float\<close> overload, binary64 for the \<^verbatim>\<open>double\<close>
  one); the identity is exact arithmetic. The selected constant, \<open>0.5\<close> or
  \<open>-0.5\<close>, is then converted to \<open>B\<close>.
\<close>

definition ctor_condition :: "(real \<Rightarrow> real) \<Rightarrow> nat \<Rightarrow> real \<Rightarrow> bool" where
  "ctor_condition fl F v = (fl (fl (v * real (unat (two_power_f F))) + v) \<ge> 0)"

definition ctor_initialiser :: "(real \<Rightarrow> real) \<Rightarrow> nat \<Rightarrow> real \<Rightarrow> real" where
  "ctor_initialiser fl F v = (if ctor_condition fl F v then 0.5 else - 0.5)"

definition FixedPoint_ctor :: "(real \<Rightarrow> real) \<Rightarrow> nat \<Rightarrow> real \<Rightarrow> ('b :: len) FixedPoint" where
  "FixedPoint_ctor fl F v = \<lparr> value' = to_storage (ctor_initialiser fl F v) \<rparr>"

subsection \<open>Objects and references\<close>

text \<open>
  Both compound assignments take \<^verbatim>\<open>*this\<close> and \<^verbatim>\<open>rhs\<close> by reference, and the two
  references may name the same object. Objects therefore live in a memory, a
  list of objects addressed by position; a new object (a local variable or a
  temporary) is appended at the end and removed from there when its lifetime
  ends. A reference is valid when it is below the length of the memory.
\<close>

type_synonym addr = nat

type_synonym 'b memory = "'b FixedPoint list"

text \<open>The implicitly declared copy constructor: a new object with the same field.\<close>

definition copy_construct :: "('b :: len) memory \<Rightarrow> addr \<Rightarrow> 'b memory \<times> addr" where
  "copy_construct m src = (m @ [m ! src], length m)"

subsection \<open>Compound assignment\<close>

text \<open>
  \<^verbatim>\<open>fixed& operator +=(fixed const& rhs) { value_ += rhs.value_; return *this; }\<close>
  and the same with \<^verbatim>\<open>-=\<close>. The result is the memory after the call and the
  returned reference. Arithmetic on the stored word wraps around modulo
  \<open>2 ^ LENGTH('b)\<close>; for a signed \<open>B\<close> as wide as \<^verbatim>\<open>int\<close> or wider C++ leaves the
  overflowing case undefined, and the wrapped value is what two's complement
  hardware computes.
\<close>

definition op_plus_assign :: "('b :: len) memory \<Rightarrow> addr \<Rightarrow> addr \<Rightarrow> 'b memory \<times> addr" where
  "op_plus_assign m this rhs =
     (m[this := (m ! this)\<lparr> value' := value' (m ! this) + value' (m ! rhs) \<rparr>], this)"

definition op_minus_assign :: "('b :: len) memory \<Rightarrow> addr \<Rightarrow> addr \<Rightarrow> 'b memory \<times> addr" where
  "op_minus_assign m this rhs =
     (m[this := (m ! this)\<lparr> value' := value' (m ! this) - value' (m ! rhs) \<rparr>], this)"

subsection \<open>Operators derived by the base classes\<close>

text \<open>
  Modelled from the spec: the operator templates of \<^verbatim>\<open>boost/operators.hpp\<close>, which
  the class derives from (\<^verbatim>\<open>boost::ordered_field_operators\<close>,
  \<^verbatim>\<open>boost::unit_steppable\<close>) and which are not part of the repository. Binary \<open>+\<close>
  and \<open>-\<close> are "copy the left operand, apply the compound operator with the
  right operand, return the copy": the copy is a local object \<open>nrv\<close>, the
  compound operator is called on it, its value is returned and the local object
  is destroyed.
\<close>

definition op_plus :: "('b :: len) memory \<Rightarrow> addr \<Rightarrow> addr \<Rightarrow> 'b memory \<times> 'b FixedPoint" where
  "op_plus m lhs rhs =
     (let (m1, nrv) = copy_construct m lhs;
          (m2, r) = op_plus_assign m1 nrv rhs
      in (butlast m2, m2 ! r))"

definition op_minus :: "('b :: len) memory \<Rightarrow> addr \<Rightarrow> addr \<Rightarrow> 'b memory \<times> 'b FixedPoint" where
  "op_minus m lhs rhs =
     (let (m1, nrv) = copy_construct m lhs;
          (m2, r) = op_minus_assign m1 nrv rhs
      in (butlast m2, m2 ! r))"

text \<open>
  Modelled from the spec: the unit step primitives \<^verbatim>\<open>operator++()\<close> and
  \<^verbatim>\<open>operator--()\<close>, which \<^verbatim>\<open>boost::unit_steppable\<close> requires and the class does
  not define. The spec gives the step two sizes (\<open>2 ^ F\<close> added to the stored
  integer in its section 4.3, \<open>2 ^ -F\<close> added to the real value, which is 1
  added to the stored integer, in its section 8), so the amount \<open>d\<close> added to
  the stored integer is a parameter. The pre-form mutates and returns the
  mutated object; the post-form "copies before mutating and returns the
  pre-mutation copy".
\<close>

definition pre_increment :: "('b :: len) word \<Rightarrow> 'b memory \<Rightarrow> addr \<Rightarrow> 'b memory \<times> addr" where
  "pre_increment d m this =
     (m[this := (m ! this)\<lparr> value' := value' (m ! this) + d \<rparr>], this)"

definition pre_decrement :: "('b :: len) word \<Rightarrow> 'b memory \<Rightarrow> addr \<Rightarrow> 'b memory \<times> addr" where
  "pre_decrement d m this =
     (m[this := (m ! this)\<lparr> value' := value' (m ! this) - d \<rparr>], this)"

definition post_increment :: "('b :: len) word \<Rightarrow> 'b memory \<Rightarrow> addr \<Rightarrow> 'b memory \<times> 'b FixedPoint" where
  "post_increment d m x =
     (let (m1, nrv) = copy_construct m x;
          (m2, r) = pre_increment d m1 x
      in (butlast m2, m2 ! nrv))"

definition post_decrement :: "('b :: len) word \<Rightarrow> 'b memory \<Rightarrow> addr \<Rightarrow> 'b memory \<times> 'b FixedPoint" where
  "post_decrement d m x =
     (let (m1, nrv) = copy_construct m x;
          (m2, r) = pre_decrement d m1 x
      in (butlast m2, m2 ! nrv))"

subsection \<open>Conversion back to floating point\<close>

text \<open>
  Modelled from the spec: the conversion of a \<^verbatim>\<open>FixedPoint\<close> back to a
  floating-point value, which the class does not define. It "computes
  \<open>value_ / 2^F\<close> in floating-point arithmetic"; the stored integer is read as
  the signedness of \<open>B\<close> says.
\<close>

definition stored_int :: "signedness \<Rightarrow> ('b :: len) FixedPoint \<Rightarrow> int" where
  "stored_int sg x = (case sg of Signed \<Rightarrow> sint (value' x) | Unsigned \<Rightarrow> uint (value' x))"

definition to_float :: "signedness \<Rightarrow> nat \<Rightarrow> ('b :: len) FixedPoint \<Rightarrow> real" where
  "to_float sg F x = real_of_int (stored_int sg x) / 2 ^ F"

subsection \<open>The rounding the spec describes\<close>

text \<open>
  The spec's words for the constructor, for comparison with
  \<open>FixedPoint_ctor\<close>: the stored value is
  \<open>trunc(v * 2^F + (v >= 0 ? 0.5 : -0.5))\<close>.
\<close>

definition round_half_away_spec :: "nat \<Rightarrow> real \<Rightarrow> int" where
  "round_half_away_spec F v = trunc (v * 2 ^ F + (if 0 \<le> v then 0.5 else - 0.5))"

section \<open>Properties\<close>

subsection \<open>Shared lemmas\<close>

lemma trunc_half: "trunc 0.5 = 0" "trunc (- 0.5) = 0"
  by (simp_all add: trunc_def ceiling_eq_iff)

lemma trunc_ctor_initialiser: "trunc (ctor_initialiser fl F v) = 0"
  using trunc_half by (simp add: ctor_initialiser_def)

lemma value_FixedPoint_ctor: "value' (FixedPoint_ctor fl F v) = 0"
  by (simp add: FixedPoint_ctor_def to_storage_def trunc_ctor_initialiser)

lemma op_plus_assign_nth:
  "this < length m \<Longrightarrow> fst (op_plus_assign m this rhs) ! this =
     (m ! this)\<lparr> value' := value' (m ! this) + value' (m ! rhs) \<rparr>"
  by (simp add: op_plus_assign_def)

lemma op_minus_assign_nth:
  "this < length m \<Longrightarrow> fst (op_minus_assign m this rhs) ! this =
     (m ! this)\<lparr> value' := value' (m ! this) - value' (m ! rhs) \<rparr>"
  by (simp add: op_minus_assign_def)

lemma op_plus_assign_other:
  "p \<noteq> this \<Longrightarrow> fst (op_plus_assign m this rhs) ! p = m ! p"
  by (simp add: op_plus_assign_def)

lemma op_minus_assign_other:
  "p \<noteq> this \<Longrightarrow> fst (op_minus_assign m this rhs) ! p = m ! p"
  by (simp add: op_minus_assign_def)

text \<open>The local copy of a derived operator is gone when the operator returns.\<close>

lemma op_plus_memory: "fst (op_plus m lhs rhs) = m"
  by (simp add: op_plus_def copy_construct_def op_plus_assign_def butlast_list_update)

lemma op_minus_memory: "fst (op_minus m lhs rhs) = m"
  by (simp add: op_minus_def copy_construct_def op_minus_assign_def butlast_list_update)

lemma op_plus_result:
  "rhs < length m \<Longrightarrow>
   snd (op_plus m lhs rhs) = (m ! lhs)\<lparr> value' := value' (m ! lhs) + value' (m ! rhs) \<rparr>"
  by (simp add: op_plus_def copy_construct_def op_plus_assign_def nth_append)

lemma op_minus_result:
  "rhs < length m \<Longrightarrow>
   snd (op_minus m lhs rhs) = (m ! lhs)\<lparr> value' := value' (m ! lhs) - value' (m ! rhs) \<rparr>"
  by (simp add: op_minus_def copy_construct_def op_minus_assign_def nth_append)

text \<open>How the two readings of a word see a sum and a difference.\<close>

lemma word_sum_reads:
  fixes x y :: "'b::len word"
  shows "uint (x + y) = (uint x + uint y) mod 2 ^ LENGTH('b)"
    and "sint (x + y) = signed_take_bit (LENGTH('b) - 1) (sint x + sint y)"
    and "uint (x - y) = (uint x - uint y) mod 2 ^ LENGTH('b)"
    and "sint (x - y) = signed_take_bit (LENGTH('b) - 1) (sint x - sint y)"
  by (simp_all add: uint_word_ariths sint_word_ariths)

lemma uint_sum_exact:
  fixes x y :: "'b::len word"
  shows "uint x + uint y < 2 ^ LENGTH('b) \<Longrightarrow> uint (x + y) = uint x + uint y"
  by (simp add: uint_add_lem)

lemma uint_diff_exact:
  fixes x y :: "'b::len word"
  shows "uint y \<le> uint x \<Longrightarrow> uint (x - y) = uint x - uint y"
  by (simp add: uint_sub_lem)

lemma sint_sum_exact:
  fixes x y :: "'b::len word"
  assumes "- (2 ^ (LENGTH('b) - 1)) \<le> sint x + sint y"
    and "sint x + sint y < 2 ^ (LENGTH('b) - 1)"
  shows "sint (x + y) = sint x + sint y"
  using assms by (simp add: sint_word_ariths signed_take_bit_int_eq_self)

lemma sint_diff_exact:
  fixes x y :: "'b::len word"
  assumes "- (2 ^ (LENGTH('b) - 1)) \<le> sint x - sint y"
    and "sint x - sint y < 2 ^ (LENGTH('b) - 1)"
  shows "sint (x - y) = sint x - sint y"
  using assms by (simp add: sint_word_ariths signed_take_bit_int_eq_self)

subsection \<open>Construction\<close>

text \<open>
  C10: for every finite floating-point argument \<open>v\<close>, whatever the rounding of
  the format and whatever \<open>F\<close>, the constructors initialise the field from the
  whole conditional expression \<open>(v * two_power_f + v) >= 0 ? 0.5 : -0.5\<close>; its
  truncation is 0, so the stored value is 0 regardless of \<open>v\<close>.
\<close>

theorem C10_ctor_stores_zero:
  "ctor_initialiser fl F v
     = (if fl (fl (v * real (unat (two_power_f F))) + v) \<ge> 0 then 0.5 else - 0.5)
   \<and> trunc (ctor_initialiser fl F v) = 0
   \<and> value' (FixedPoint_ctor fl F v :: ('b::len) FixedPoint) = 0"
  by (simp add: trunc_ctor_initialiser value_FixedPoint_ctor)
    (simp add: ctor_initialiser_def ctor_condition_def)

text \<open>
  C1: the claim is that construction stores the scaled argument rounded half
  away from zero, 960 for 3.75 and -960 for -3.75 with 16-bit signed storage and
  \<open>F = 8\<close>. The constructor stores 0 for both arguments, where the rounding the
  claim describes gives 960 and -960 (3.75 * 256 + 3.75 = 963.75 is exact in
  both floating-point formats, so \<open>fl\<close> is the identity here).
\<close>

theorem C1_ctor_at_3_75:
  "sint (value' (FixedPoint_ctor (\<lambda>x. x) 8 3.75 :: 16 FixedPoint)) = 0
   \<and> round_half_away_spec 8 3.75 = 960
   \<and> sint (value' (FixedPoint_ctor (\<lambda>x. x) 8 (- 3.75) :: 16 FixedPoint)) = 0
   \<and> round_half_away_spec 8 (- 3.75) = - 960"
  by (simp add: value_FixedPoint_ctor round_half_away_spec_def trunc_def)

text \<open>
  C7: for every real \<open>v\<close>, the values stored for \<open>v\<close> and for \<open>-v\<close> are negations
  of each other, as words and as signed integers. (Both are 0.)
\<close>

theorem C7_rounding_symmetry:
  "value' (FixedPoint_ctor fl F v :: ('b::len) FixedPoint)
     = - value' (FixedPoint_ctor fl F (- v) :: 'b FixedPoint)
   \<and> sint (value' (FixedPoint_ctor fl F v :: 'b FixedPoint))
     = - sint (value' (FixedPoint_ctor fl F (- v) :: 'b FixedPoint))"
  by (simp add: value_FixedPoint_ctor)

text \<open>
  C2: the claim is that converting back gives \<open>value_ / 2^F\<close> and that the round
  trip is within \<open>2^-(F+1)\<close> of the argument. With 16-bit signed storage and
  \<open>F = 8\<close>, the round trip of 3.75 through the constructor and the conversion of
  the spec is 0, further than \<open>2^-9\<close> from 3.75.
\<close>

theorem C2_round_trip_at_3_75:
  "to_float Signed 8 (FixedPoint_ctor (\<lambda>x. x) 8 3.75 :: 16 FixedPoint) = 0
   \<and> \<not> \<bar>to_float Signed 8 (FixedPoint_ctor (\<lambda>x. x) 8 3.75 :: 16 FixedPoint) - 3.75\<bar>
         \<le> 1 / 2 ^ (8 + 1)"
  by (simp add: to_float_def stored_int_def value_FixedPoint_ctor)

subsection \<open>The default number of fractional bits\<close>

text \<open>
  C3, as stated: \<open>F\<close> defaults to the bit width of \<open>B\<close> minus \<open>I\<close> for signed and
  unsigned \<open>B\<close> alike. For 16-bit signed storage and \<open>I = 8\<close> the default is 7,
  not 16 - 8.
\<close>

theorem C3_default_F_signed_counterexample:
  "default_F Signed TYPE(16) 8 = Some 7
   \<and> default_F Signed TYPE(16) 8 \<noteq> Some (LENGTH(16) - 8)"
  by (simp add: default_F_def digits_def)

text \<open>
  C3, amended: \<open>F\<close> defaults to the bit width of \<open>B\<close> minus \<open>I\<close> when \<open>B\<close> is
  unsigned, and to the bit width minus one (the sign bit) minus \<open>I\<close> when \<open>B\<close> is
  signed; an \<open>I\<close> above that number of digits has no default.
\<close>

theorem C3_default_F:
  "default_F Unsigned TYPE('b::len) I
     = (if I \<le> LENGTH('b) then Some (LENGTH('b) - I) else None)
   \<and> default_F Signed TYPE('b) I
     = (if I \<le> LENGTH('b) - 1 then Some (LENGTH('b) - 1 - I) else None)"
  by (simp add: default_F_def digits_def)

subsection \<open>Addition and subtraction\<close>

text \<open>
  C4: \<open>a += b\<close> sets the stored value of \<open>a\<close> to the sum of the two stored
  values and \<open>a -= b\<close> to their difference, with no rescaling: the word sum,
  which read as an unsigned integer is the integer sum modulo \<open>2 ^ N\<close> and read
  as a signed integer is the integer sum wrapped into the signed range, and
  which is the integer sum itself when that is in range.
\<close>

theorem C4_compound_assignment:
  fixes m :: "('b::len) memory"
  assumes "a < length m"
  shows
   "value' (fst (op_plus_assign m a b) ! a) = value' (m ! a) + value' (m ! b)
  \<and> uint (value' (fst (op_plus_assign m a b) ! a))
      = (uint (value' (m ! a)) + uint (value' (m ! b))) mod 2 ^ LENGTH('b)
  \<and> sint (value' (fst (op_plus_assign m a b) ! a))
      = signed_take_bit (LENGTH('b) - 1) (sint (value' (m ! a)) + sint (value' (m ! b)))
  \<and> (uint (value' (m ! a)) + uint (value' (m ! b)) < 2 ^ LENGTH('b)
      \<longrightarrow> uint (value' (fst (op_plus_assign m a b) ! a))
          = uint (value' (m ! a)) + uint (value' (m ! b)))
  \<and> (- (2 ^ (LENGTH('b) - 1)) \<le> sint (value' (m ! a)) + sint (value' (m ! b))
      \<and> sint (value' (m ! a)) + sint (value' (m ! b)) < 2 ^ (LENGTH('b) - 1)
      \<longrightarrow> sint (value' (fst (op_plus_assign m a b) ! a))
          = sint (value' (m ! a)) + sint (value' (m ! b)))
  \<and> value' (fst (op_minus_assign m a b) ! a) = value' (m ! a) - value' (m ! b)
  \<and> uint (value' (fst (op_minus_assign m a b) ! a))
      = (uint (value' (m ! a)) - uint (value' (m ! b))) mod 2 ^ LENGTH('b)
  \<and> sint (value' (fst (op_minus_assign m a b) ! a))
      = signed_take_bit (LENGTH('b) - 1) (sint (value' (m ! a)) - sint (value' (m ! b)))
  \<and> (uint (value' (m ! b)) \<le> uint (value' (m ! a))
      \<longrightarrow> uint (value' (fst (op_minus_assign m a b) ! a))
          = uint (value' (m ! a)) - uint (value' (m ! b)))
  \<and> (- (2 ^ (LENGTH('b) - 1)) \<le> sint (value' (m ! a)) - sint (value' (m ! b))
      \<and> sint (value' (m ! a)) - sint (value' (m ! b)) < 2 ^ (LENGTH('b) - 1)
      \<longrightarrow> sint (value' (fst (op_minus_assign m a b) ! a))
          = sint (value' (m ! a)) - sint (value' (m ! b)))"
proof -
  have plus: "value' (fst (op_plus_assign m a b) ! a) = value' (m ! a) + value' (m ! b)"
    using assms by (simp add: op_plus_assign_nth)
  have minus: "value' (fst (op_minus_assign m a b) ! a) = value' (m ! a) - value' (m ! b)"
    using assms by (simp add: op_minus_assign_nth)
  show ?thesis
    unfolding plus minus
    using word_sum_reads [of "value' (m ! a)" "value' (m ! b)"]
      uint_sum_exact [of "value' (m ! a)" "value' (m ! b)"]
      uint_diff_exact [of "value' (m ! b)" "value' (m ! a)"]
      sint_sum_exact [of "value' (m ! a)" "value' (m ! b)"]
      sint_diff_exact [of "value' (m ! a)" "value' (m ! b)"]
    by blast
qed

theorem C4_compound_assignment_witness:
  "(0::nat) < length [\<lparr>value' = 960 :: 16 word\<rparr>, \<lparr>value' = 320\<rparr>]
   \<and> uint (960 :: 16 word) + uint (320 :: 16 word) < 2 ^ LENGTH(16)
   \<and> - (2 ^ (LENGTH(16) - 1)) \<le> sint (960 :: 16 word) + sint (320 :: 16 word)
   \<and> sint (960 :: 16 word) + sint (320 :: 16 word) < 2 ^ (LENGTH(16) - 1)
   \<and> uint (320 :: 16 word) \<le> uint (960 :: 16 word)
   \<and> - (2 ^ (LENGTH(16) - 1)) \<le> sint (960 :: 16 word) - sint (320 :: 16 word)
   \<and> sint (960 :: 16 word) - sint (320 :: 16 word) < 2 ^ (LENGTH(16) - 1)
   \<and> value' (fst (op_plus_assign [\<lparr>value' = 960 :: 16 word\<rparr>, \<lparr>value' = 320\<rparr>] 0 1) ! 0) = 1280
   \<and> sint (value' (fst (op_plus_assign [\<lparr>value' = 960 :: 16 word\<rparr>, \<lparr>value' = 320\<rparr>] 0 1) ! 0)) = 1280
   \<and> value' (fst (op_minus_assign [\<lparr>value' = 960 :: 16 word\<rparr>, \<lparr>value' = 320\<rparr>] 0 1) ! 0) = 640
   \<and> sint (value' (fst (op_minus_assign [\<lparr>value' = 960 :: 16 word\<rparr>, \<lparr>value' = 320\<rparr>] 0 1) ! 0)) = 640"
  using C4_compound_assignment [of 0 "[\<lparr>value' = 960 :: 16 word\<rparr>, \<lparr>value' = 320\<rparr>]" 1]
  by simp

text \<open>
  C5: for valid operands, \<open>a + b\<close> is what \<open>+=\<close> leaves in a copy of \<open>a\<close> when it
  is applied to that copy and \<open>b\<close>, and \<open>a - b\<close> what \<open>-=\<close> leaves there: the
  right-hand sides run the compound operators of the class on a memory that
  holds only the copy of \<open>a\<close> and the value of \<open>b\<close>.
\<close>

theorem C5_derived_operators:
  fixes m :: "('b::len) memory"
  assumes "lhs < length m" and "rhs < length m"
  shows "snd (op_plus m lhs rhs) = fst (op_plus_assign [m ! lhs, m ! rhs] 0 1) ! 0
       \<and> snd (op_minus m lhs rhs) = fst (op_minus_assign [m ! lhs, m ! rhs] 0 1) ! 0"
  using assms
  by (simp add: op_plus_result op_minus_result op_plus_assign_def op_minus_assign_def)

theorem C5_derived_operators_witness:
  "(0::nat) < length [\<lparr>value' = 960 :: 16 word\<rparr>, \<lparr>value' = 320\<rparr>]
   \<and> (1::nat) < length [\<lparr>value' = 960 :: 16 word\<rparr>, \<lparr>value' = 320\<rparr>]
   \<and> snd (op_plus [\<lparr>value' = 960 :: 16 word\<rparr>, \<lparr>value' = 320\<rparr>] 0 1) = \<lparr>value' = 1280\<rparr>
   \<and> snd (op_minus [\<lparr>value' = 960 :: 16 word\<rparr>, \<lparr>value' = 320\<rparr>] 0 1) = \<lparr>value' = 640\<rparr>"
  using C5_derived_operators [of 0 "[\<lparr>value' = 960 :: 16 word\<rparr>, \<lparr>value' = 320\<rparr>]" 1]
  by (simp add: op_plus_assign_def op_minus_assign_def)

text \<open>
  C6: for valid operands \<open>a\<close> and \<open>b\<close>, \<open>(a + b) - b\<close> is \<open>a\<close> and \<open>a + b\<close> is
  \<open>b + a\<close>, with wrap-around arithmetic on the stored integer. The class
  defines no \<open>==\<close>; the two sides are equal as objects. The temporary that holds
  \<open>a + b\<close> is a new object at the end of the memory.
\<close>

theorem C6_additive_laws:
  fixes m :: "('b::len) memory"
  assumes "a < length m" and "b < length m"
  shows "snd (op_minus (fst (op_plus m a b) @ [snd (op_plus m a b)]) (length m) b) = m ! a
       \<and> snd (op_plus m a b) = snd (op_plus m b a)"
  using assms
  by (simp add: op_plus_memory op_plus_result op_minus_result nth_append add.commute)

theorem C6_additive_laws_witness:
  "(0::nat) < length [\<lparr>value' = 65535 :: 16 word\<rparr>, \<lparr>value' = 7\<rparr>]
   \<and> (1::nat) < length [\<lparr>value' = 65535 :: 16 word\<rparr>, \<lparr>value' = 7\<rparr>]
   \<and> snd (op_minus
         (fst (op_plus [\<lparr>value' = 65535 :: 16 word\<rparr>, \<lparr>value' = 7\<rparr>] 0 1)
            @ [snd (op_plus [\<lparr>value' = 65535 :: 16 word\<rparr>, \<lparr>value' = 7\<rparr>] 0 1)])
         2 1) = \<lparr>value' = 65535\<rparr>
   \<and> snd (op_plus [\<lparr>value' = 65535 :: 16 word\<rparr>, \<lparr>value' = 7\<rparr>] 0 1)
     = snd (op_plus [\<lparr>value' = 65535 :: 16 word\<rparr>, \<lparr>value' = 7\<rparr>] 1 0)"
proof -
  let ?m = "[\<lparr>value' = 65535 :: 16 word\<rparr>, \<lparr>value' = 7\<rparr>]"
  have a: "(0::nat) < length ?m" and b: "(1::nat) < length ?m"
    by simp_all
  have len: "length ?m = 2" and first: "?m ! 0 = \<lparr>value' = 65535\<rparr>"
    by simp_all
  from a b C6_additive_laws [OF a b, unfolded len first] show ?thesis
    by blast
qed

subsection \<open>Effects\<close>

text \<open>
  C9, as stated: every compound assignment leaves its right-hand operand
  unchanged. Both operands are references, and in \<open>a += a\<close> and \<open>a -= a\<close> they
  name one object: with 960 stored, the right-hand operand holds 1920 after
  \<open>a += a\<close> and 0 after \<open>a -= a\<close>.
\<close>

theorem C9_aliased_operands_counterexample:
  "fst (op_plus_assign [\<lparr>value' = 960 :: 16 word\<rparr>] 0 0) ! 0 = \<lparr>value' = 1920\<rparr>
   \<and> fst (op_plus_assign [\<lparr>value' = 960 :: 16 word\<rparr>] 0 0) ! 0
       \<noteq> [\<lparr>value' = 960 :: 16 word\<rparr>] ! 0
   \<and> fst (op_minus_assign [\<lparr>value' = 960 :: 16 word\<rparr>] 0 0) ! 0 = \<lparr>value' = 0\<rparr>
   \<and> fst (op_minus_assign [\<lparr>value' = 960 :: 16 word\<rparr>] 0 0) ! 0
       \<noteq> [\<lparr>value' = 960 :: 16 word\<rparr>] ! 0"
  by (simp add: op_plus_assign_def op_minus_assign_def)

text \<open>
  C9, amended: a compound assignment on valid operands writes its left-hand
  operand, which then holds the sum or the difference of the two operand
  values as they were before the call (also when both operands are the same
  object), and leaves every other object \<open>p\<close> as it was, so the right-hand
  operand whenever it is another object than the left-hand one; the memory
  keeps its size and the returned reference is the left-hand operand. The
  derived \<open>+\<close> and \<open>-\<close> leave the whole memory as it was, and their result
  depends on the two operand values only.
\<close>

theorem C9_frame:
  fixes m :: "('b::len) memory"
  assumes "this < length m" and "rhs < length m" and "p \<noteq> this"
  shows "fst (op_plus_assign m this rhs) ! p = m ! p
       \<and> fst (op_minus_assign m this rhs) ! p = m ! p
       \<and> fst (op_plus_assign m this rhs) ! this
           = (m ! this)\<lparr> value' := value' (m ! this) + value' (m ! rhs) \<rparr>
       \<and> fst (op_minus_assign m this rhs) ! this
           = (m ! this)\<lparr> value' := value' (m ! this) - value' (m ! rhs) \<rparr>
       \<and> length (fst (op_plus_assign m this rhs)) = length m
       \<and> length (fst (op_minus_assign m this rhs)) = length m
       \<and> snd (op_plus_assign m this rhs) = this
       \<and> snd (op_minus_assign m this rhs) = this
       \<and> fst (op_plus m this rhs) = m
       \<and> fst (op_minus m this rhs) = m
       \<and> snd (op_plus m this rhs) = snd (op_plus [m ! this, m ! rhs] 0 1)
       \<and> snd (op_minus m this rhs) = snd (op_minus [m ! this, m ! rhs] 0 1)"
  using assms
  by (simp add: op_plus_assign_other op_minus_assign_other op_plus_assign_nth
      op_minus_assign_nth op_plus_memory op_minus_memory op_plus_result op_minus_result)
    (simp add: op_plus_assign_def op_minus_assign_def)

theorem C9_frame_witness:
  "(0::nat) < length [\<lparr>value' = 960 :: 16 word\<rparr>, \<lparr>value' = 320\<rparr>]
   \<and> (1::nat) < length [\<lparr>value' = 960 :: 16 word\<rparr>, \<lparr>value' = 320\<rparr>]
   \<and> (1::nat) \<noteq> 0
   \<and> fst (op_plus_assign [\<lparr>value' = 960 :: 16 word\<rparr>, \<lparr>value' = 320\<rparr>] 0 1) ! 1 = \<lparr>value' = 320\<rparr>
   \<and> fst (op_minus_assign [\<lparr>value' = 960 :: 16 word\<rparr>, \<lparr>value' = 320\<rparr>] 0 1) ! 1 = \<lparr>value' = 320\<rparr>
   \<and> fst (op_plus_assign [\<lparr>value' = 960 :: 16 word\<rparr>, \<lparr>value' = 320\<rparr>] 0 1) ! 0 = \<lparr>value' = 1280\<rparr>
   \<and> fst (op_plus [\<lparr>value' = 960 :: 16 word\<rparr>, \<lparr>value' = 320\<rparr>] 0 1) = [\<lparr>value' = 960 :: 16 word\<rparr>, \<lparr>value' = 320\<rparr>]"
  using C9_frame [of 0 "[\<lparr>value' = 960 :: 16 word\<rparr>, \<lparr>value' = 320\<rparr>]" 1 1]
  by simp

subsection \<open>Unit steps\<close>

text \<open>
  C8: the claim is that the post-form returns the copy made before the step
  and that, with 16-bit signed storage and \<open>F = 8\<close>, after
  \<open>FixedPoint a(1.0); a++\<close> the value converts back to 1.00390625 = 257 / 256.
  The constructor stores 0 for 1.0. The post-increment returns that object and
  leaves in \<open>a\<close> what the pre-increment leaves, and \<open>a\<close> then converts back to
  1 / 256 when the step adds 1 to the stored integer and to 1 when it adds
  \<open>2 ^ 8\<close>.
\<close>

theorem C8_increment_at_1:
  "sint (value' (FixedPoint_ctor (\<lambda>x. x) 8 1 :: 16 FixedPoint)) = 0
   \<and> snd (post_increment 1 [FixedPoint_ctor (\<lambda>x. x) 8 1 :: 16 FixedPoint] 0)
       = \<lparr>value' = 0\<rparr>
   \<and> fst (post_increment 1 [FixedPoint_ctor (\<lambda>x. x) 8 1 :: 16 FixedPoint] 0)
       = fst (pre_increment 1 [FixedPoint_ctor (\<lambda>x. x) 8 1 :: 16 FixedPoint] 0)
   \<and> to_float Signed 8
        (fst (post_increment 1 [FixedPoint_ctor (\<lambda>x. x) 8 1 :: 16 FixedPoint] 0) ! 0)
       = 1 / 256
   \<and> to_float Signed 8
        (fst (post_increment (2 ^ 8) [FixedPoint_ctor (\<lambda>x. x) 8 1 :: 16 FixedPoint] 0) ! 0)
       = 1
   \<and> (1.00390625 :: real) = 257 / 256"
  by (simp add: to_float_def stored_int_def post_increment_def pre_increment_def
      copy_construct_def value_FixedPoint_ctor FixedPoint_ctor_def to_storage_def
      trunc_ctor_initialiser)

end
